theory Spec2Isabelle
  imports Complex_Main
begin

section \<open>Memory, pointers and errors\<close>

text \<open>
  The six conversions of \<open>differential_transmission.h\<close> read and write \<open>double\<close> cells
  through vectors of raw pointers (\<open>std::vector<double*>\<close>), so the embedding keeps an
  explicit memory. A memory is the list of the live cells, a cell's address is its index,
  and a local array of a call is pushed at the end of the list and popped when the call
  returns. A pointer is \<open>None\<close> (the null pointer) or \<open>Some a\<close>. Reading or writing through
  a null pointer or through an address that is not live is undefined behaviour in C++; here
  it is the error \<open>InvalidAccess\<close>.

  A \<open>double\<close> is idealised as a \<open>real\<close>: the statements below are about the exact
  arithmetic of the formulas, not about rounding.
\<close>

type_synonym memory = "real list"

type_synonym ptr = "nat option"

datatype error =
    TransmissionException string
  | AssertionFailure
  | InvalidAccess

definition deref :: "memory \<Rightarrow> ptr \<Rightarrow> error + real" where
  "deref m p =
     (case p of
        None \<Rightarrow> Inl InvalidAccess
      | Some a \<Rightarrow> if a < length m then Inr (m ! a) else Inl InvalidAccess)"

definition assign :: "memory \<Rightarrow> ptr \<Rightarrow> real \<Rightarrow> error + memory" where
  "assign m p v =
     (case p of
        None \<Rightarrow> Inl InvalidAccess
      | Some a \<Rightarrow> if a < length m then Inr (m[a := v]) else Inl InvalidAccess)"

text \<open>Sequencing: the first error ends the call.\<close>

definition and_then :: "error + 'a \<Rightarrow> ('a \<Rightarrow> error + 'b) \<Rightarrow> error + 'b" where
  "and_then r f = (case r of Inl e \<Rightarrow> Inl e | Inr x \<Rightarrow> f x)"

section \<open>The class \<open>DifferentialTransmission\<close>\<close>

record DifferentialTransmission =
  actuator_reduction_' :: "real list"
  joint_reduction_' :: "real list"
  joint_offset_' :: "real list"
  joint_pos_vec_' :: "ptr list"

text \<open>
  The constructor copies its three arguments into the members, makes \<open>joint_pos_vec_'\<close> a
  vector of two null pointers, and then throws when a size is not 2 or a reduction is zero.
  A throwing constructor yields no object: the result is \<open>Inl\<close>.
\<close>

definition DifferentialTransmission ::
  "real list \<Rightarrow> real list \<Rightarrow> real list \<Rightarrow> error + DifferentialTransmission" where
  "DifferentialTransmission actuator_reduction joint_reduction joint_offset =
     (let this = \<lparr> actuator_reduction_' = actuator_reduction,
                    joint_reduction_' = joint_reduction,
                    joint_offset_' = joint_offset,
                    joint_pos_vec_' = replicate 2 None \<rparr>
      in if 2 \<noteq> length actuator_reduction \<or>
            2 \<noteq> length (joint_reduction_' this) \<or>
            2 \<noteq> length (joint_offset_' this)
         then Inl (TransmissionException
                ''Reduction and offset vectors of a differential transmission must have size 2.'')
         else if 0 = actuator_reduction ! 0 \<or>
                 0 = actuator_reduction ! 1 \<or>
                 0 = joint_reduction_' this ! 0 \<or>
                 0 = joint_reduction_' this ! 1
         then Inl (TransmissionException ''Transmission reduction ratios cannot be zero.'')
         else Inr this)"

text \<open>
  Each conversion asserts the two sizes and then runs two assignments in order. The second
  assignment reads its operands from the memory the first one has written.
\<close>

definition actuatorToJointEffort ::
  "DifferentialTransmission \<Rightarrow> ptr list \<Rightarrow> ptr list \<Rightarrow> memory \<Rightarrow> error + memory" where
  "actuatorToJointEffort this actuator_eff joint_eff m =
     (if \<not> (2 = length actuator_eff \<and> 2 = length joint_eff) then Inl AssertionFailure
      else
        let ar = actuator_reduction_' this; jr = joint_reduction_' this in
        and_then (deref m (actuator_eff ! 0)) (\<lambda>x0.
        and_then (deref m (actuator_eff ! 1)) (\<lambda>x1.
        and_then (assign m (joint_eff ! 0) (jr ! 0 * (x0 * ar ! 0 + x1 * ar ! 1))) (\<lambda>m1.
        and_then (deref m1 (actuator_eff ! 0)) (\<lambda>y0.
        and_then (deref m1 (actuator_eff ! 1)) (\<lambda>y1.
        assign m1 (joint_eff ! 1) (jr ! 1 * (y0 * ar ! 0 - y1 * ar ! 1))))))))"

definition actuatorToJointVelocity ::
  "DifferentialTransmission \<Rightarrow> ptr list \<Rightarrow> ptr list \<Rightarrow> memory \<Rightarrow> error + memory" where
  "actuatorToJointVelocity this actuator_vel joint_vel m =
     (if \<not> (2 = length actuator_vel \<and> 2 = length joint_vel) then Inl AssertionFailure
      else
        let ar = actuator_reduction_' this; jr = joint_reduction_' this in
        and_then (deref m (actuator_vel ! 0)) (\<lambda>x0.
        and_then (deref m (actuator_vel ! 1)) (\<lambda>x1.
        and_then (assign m (joint_vel ! 0) ((x0 / ar ! 0 + x1 / ar ! 1) / (2 * jr ! 0))) (\<lambda>m1.
        and_then (deref m1 (actuator_vel ! 0)) (\<lambda>y0.
        and_then (deref m1 (actuator_vel ! 1)) (\<lambda>y1.
        assign m1 (joint_vel ! 1) ((y0 / ar ! 0 - y1 / ar ! 1) / (2 * jr ! 1))))))))"

text \<open>\<open>*joint_pos[i] += joint_offset_'[i]\<close> reads the cell and writes it back.\<close>

definition actuatorToJointPosition ::
  "DifferentialTransmission \<Rightarrow> ptr list \<Rightarrow> ptr list \<Rightarrow> memory \<Rightarrow> error + memory" where
  "actuatorToJointPosition this actuator_pos joint_pos m =
     (if \<not> (2 = length actuator_pos \<and> 2 = length joint_pos) then Inl AssertionFailure
      else
        and_then (actuatorToJointVelocity this actuator_pos joint_pos m) (\<lambda>m1.
        and_then (deref m1 (joint_pos ! 0)) (\<lambda>q0.
        and_then (assign m1 (joint_pos ! 0) (q0 + joint_offset_' this ! 0)) (\<lambda>m2.
        and_then (deref m2 (joint_pos ! 1)) (\<lambda>q1.
        assign m2 (joint_pos ! 1) (q1 + joint_offset_' this ! 1))))))"

definition jointToActuatorEffort ::
  "DifferentialTransmission \<Rightarrow> ptr list \<Rightarrow> ptr list \<Rightarrow> memory \<Rightarrow> error + memory" where
  "jointToActuatorEffort this joint_eff actuator_eff m =
     (if \<not> (2 = length actuator_eff \<and> 2 = length joint_eff) then Inl AssertionFailure
      else
        let ar = actuator_reduction_' this; jr = joint_reduction_' this in
        and_then (deref m (joint_eff ! 0)) (\<lambda>x0.
        and_then (deref m (joint_eff ! 1)) (\<lambda>x1.
        and_then (assign m (actuator_eff ! 0) ((x0 / jr ! 0 + x1 / jr ! 1) / (2 * ar ! 0))) (\<lambda>m1.
        and_then (deref m1 (joint_eff ! 0)) (\<lambda>y0.
        and_then (deref m1 (joint_eff ! 1)) (\<lambda>y1.
        assign m1 (actuator_eff ! 1) ((y0 / jr ! 0 - y1 / jr ! 1) / (2 * ar ! 1))))))))"

definition jointToActuatorVelocity ::
  "DifferentialTransmission \<Rightarrow> ptr list \<Rightarrow> ptr list \<Rightarrow> memory \<Rightarrow> error + memory" where
  "jointToActuatorVelocity this joint_vel actuator_vel m =
     (if \<not> (2 = length actuator_vel \<and> 2 = length joint_vel) then Inl AssertionFailure
      else
        let ar = actuator_reduction_' this; jr = joint_reduction_' this in
        and_then (deref m (joint_vel ! 0)) (\<lambda>x0.
        and_then (deref m (joint_vel ! 1)) (\<lambda>x1.
        and_then (assign m (actuator_vel ! 0) ((x0 * jr ! 0 + x1 * jr ! 1) * ar ! 0)) (\<lambda>m1.
        and_then (deref m1 (joint_vel ! 0)) (\<lambda>y0.
        and_then (deref m1 (joint_vel ! 1)) (\<lambda>y1.
        assign m1 (actuator_vel ! 1) ((y0 * jr ! 0 - y1 * jr ! 1) * ar ! 1)))))))"

text \<open>
  \<open>jointToActuatorPosition\<close> is the one conversion that changes the object: it points the
  member \<open>joint_pos_vec_'\<close> at its local array \<open>joint_pos_with_offset\<close> and passes that member
  to \<open>jointToActuatorVelocity\<close>. The local array takes the two cells after the live ones;
  they are popped on return, which leaves \<open>joint_pos_vec_'\<close> dangling. The result is the
  object and the memory after the call.
\<close>

definition jointToActuatorPosition ::
  "DifferentialTransmission \<Rightarrow> ptr list \<Rightarrow> ptr list \<Rightarrow> memory \<Rightarrow>
     error + (DifferentialTransmission \<times> memory)" where
  "jointToActuatorPosition this joint_pos actuator_pos m =
     (if \<not> (2 = length actuator_pos \<and> 2 = length joint_pos) then Inl AssertionFailure
      else
        and_then (deref m (joint_pos ! 0)) (\<lambda>p0.
        and_then (deref m (joint_pos ! 1)) (\<lambda>p1.
          let joint_pos_with_offset = length m;
              m1 = m @ [p0 - joint_offset_' this ! 0, p1 - joint_offset_' this ! 1];
              this1 = this\<lparr> joint_pos_vec_' :=
                        (joint_pos_vec_' this)[0 := Some joint_pos_with_offset] \<rparr>;
              this2 = this1\<lparr> joint_pos_vec_' :=
                        (joint_pos_vec_' this1)[1 := Some (joint_pos_with_offset + 1)] \<rparr>
          in and_then (jointToActuatorVelocity this2 (joint_pos_vec_' this2) actuator_pos m1)
               (\<lambda>m2. Inr (this2, take joint_pos_with_offset m2)))))"

definition numActuators :: "DifferentialTransmission \<Rightarrow> nat" where
  "numActuators this = 2"

definition numJoints :: "DifferentialTransmission \<Rightarrow> nat" where
  "numJoints this = 2"

text \<open>
  The class invariant: what the constructor checks, together with the size of the workspace
  vector. The constructor establishes it and \<open>jointToActuatorPosition\<close>, the only conversion
  that changes the object, keeps it (lemmas \<open>constructed_wellformed\<close> and
  \<open>jointToActuatorPosition_wellformed\<close> below), so every object of the program satisfies it.
  Under it no vector is indexed out of range and no formula divides by zero.
\<close>

definition wellformed :: "DifferentialTransmission \<Rightarrow> bool" where
  "wellformed this \<longleftrightarrow>
     length (actuator_reduction_' this) = 2 \<and>
     length (joint_reduction_' this) = 2 \<and>
     length (joint_offset_' this) = 2 \<and>
     length (joint_pos_vec_' this) = 2 \<and>
     actuator_reduction_' this ! 0 \<noteq> 0 \<and>
     actuator_reduction_' this ! 1 \<noteq> 0 \<and>
     joint_reduction_' this ! 0 \<noteq> 0 \<and>
     joint_reduction_' this ! 1 \<noteq> 0"

section \<open>Running the conversions on live slots\<close>

lemma and_then_simps [simp]:
  "and_then (Inr x) f = f x"
  "and_then (Inl e) f = Inl e"
  by (simp_all add: and_then_def)

lemma deref_live [simp]: "a < length m \<Longrightarrow> deref m (Some a) = Inr (m ! a)"
  by (simp add: deref_def)

lemma assign_live [simp]: "a < length m \<Longrightarrow> assign m (Some a) v = Inr (m[a := v])"
  by (simp add: assign_def)

lemma constructed_wellformed:
  "DifferentialTransmission ar jr jo = Inr t \<Longrightarrow> wellformed t"
  by (auto simp: DifferentialTransmission_def wellformed_def Let_def split: if_splits)

lemma constructed_fields:
  "DifferentialTransmission ar jr jo = Inr t \<Longrightarrow>
     actuator_reduction_' t = ar \<and> joint_reduction_' t = jr \<and> joint_offset_' t = jo \<and>
     joint_pos_vec_' t = [None, None]"
  by (auto simp: DifferentialTransmission_def Let_def numeral_2_eq_2 split: if_splits)

lemma actuatorToJointEffort_run:
  assumes "a0 < length m" "a1 < length m" "j0 < length m" "j1 < length m"
    and "j0 \<noteq> a0" "j0 \<noteq> a1"
  shows "actuatorToJointEffort t [Some a0, Some a1] [Some j0, Some j1] m =
           Inr (m[j0 := joint_reduction_' t ! 0 *
                         (m ! a0 * actuator_reduction_' t ! 0 + m ! a1 * actuator_reduction_' t ! 1),
                  j1 := joint_reduction_' t ! 1 *
                         (m ! a0 * actuator_reduction_' t ! 0 - m ! a1 * actuator_reduction_' t ! 1)])"
  using assms by (simp add: actuatorToJointEffort_def Let_def)

lemma actuatorToJointVelocity_run:
  assumes "a0 < length m" "a1 < length m" "j0 < length m" "j1 < length m"
    and "j0 \<noteq> a0" "j0 \<noteq> a1"
  shows "actuatorToJointVelocity t [Some a0, Some a1] [Some j0, Some j1] m =
           Inr (m[j0 := (m ! a0 / actuator_reduction_' t ! 0 + m ! a1 / actuator_reduction_' t ! 1)
                         / (2 * joint_reduction_' t ! 0),
                  j1 := (m ! a0 / actuator_reduction_' t ! 0 - m ! a1 / actuator_reduction_' t ! 1)
                         / (2 * joint_reduction_' t ! 1)])"
  using assms by (simp add: actuatorToJointVelocity_def Let_def)

lemma jointToActuatorEffort_run:
  assumes "a0 < length m" "a1 < length m" "j0 < length m" "j1 < length m"
    and "a0 \<noteq> j0" "a0 \<noteq> j1"
  shows "jointToActuatorEffort t [Some j0, Some j1] [Some a0, Some a1] m =
           Inr (m[a0 := (m ! j0 / joint_reduction_' t ! 0 + m ! j1 / joint_reduction_' t ! 1)
                         / (2 * actuator_reduction_' t ! 0),
                  a1 := (m ! j0 / joint_reduction_' t ! 0 - m ! j1 / joint_reduction_' t ! 1)
                         / (2 * actuator_reduction_' t ! 1)])"
  using assms by (simp add: jointToActuatorEffort_def Let_def)

lemma jointToActuatorVelocity_run:
  assumes "a0 < length m" "a1 < length m" "j0 < length m" "j1 < length m"
    and "a0 \<noteq> j0" "a0 \<noteq> j1"
  shows "jointToActuatorVelocity t [Some j0, Some j1] [Some a0, Some a1] m =
           Inr (m[a0 := (m ! j0 * joint_reduction_' t ! 0 + m ! j1 * joint_reduction_' t ! 1)
                         * actuator_reduction_' t ! 0,
                  a1 := (m ! j0 * joint_reduction_' t ! 0 - m ! j1 * joint_reduction_' t ! 1)
                         * actuator_reduction_' t ! 1])"
  using assms by (simp add: jointToActuatorVelocity_def Let_def)

lemma actuatorToJointPosition_run:
  assumes "a0 < length m" "a1 < length m" "j0 < length m" "j1 < length m"
    and "j0 \<noteq> a0" "j0 \<noteq> a1" "j0 \<noteq> j1"
  shows "actuatorToJointPosition t [Some a0, Some a1] [Some j0, Some j1] m =
           Inr (m[j0 := (m ! a0 / actuator_reduction_' t ! 0 + m ! a1 / actuator_reduction_' t ! 1)
                         / (2 * joint_reduction_' t ! 0) + joint_offset_' t ! 0,
                  j1 := (m ! a0 / actuator_reduction_' t ! 0 - m ! a1 / actuator_reduction_' t ! 1)
                         / (2 * joint_reduction_' t ! 1) + joint_offset_' t ! 1])"
  using assms
  by (simp add: actuatorToJointPosition_def actuatorToJointVelocity_run list_update_swap)

lemma jointToActuatorPosition_run:
  assumes "length (joint_pos_vec_' t) = 2"
    and "a0 < length m" "a1 < length m" "j0 < length m" "j1 < length m"
  shows "jointToActuatorPosition t [Some j0, Some j1] [Some a0, Some a1] m =
           Inr (t\<lparr> joint_pos_vec_' := [Some (length m), Some (length m + 1)] \<rparr>,
                m[a0 := ((m ! j0 - joint_offset_' t ! 0) * joint_reduction_' t ! 0 +
                         (m ! j1 - joint_offset_' t ! 1) * joint_reduction_' t ! 1)
                         * actuator_reduction_' t ! 0,
                  a1 := ((m ! j0 - joint_offset_' t ! 0) * joint_reduction_' t ! 0 -
                         (m ! j1 - joint_offset_' t ! 1) * joint_reduction_' t ! 1)
                         * actuator_reduction_' t ! 1])"
proof -
  obtain p q where pv: "joint_pos_vec_' t = [p, q]"
    using assms(1) by (cases "joint_pos_vec_' t"; simp; rename_tac x xs; case_tac xs; simp)
  show ?thesis
    using assms(2-)
    by (simp add: jointToActuatorPosition_def Let_def pv jointToActuatorVelocity_run
        nth_append list_update_append)
qed

lemma jointToActuatorPosition_wellformed:
  assumes "wellformed t" and "jointToActuatorPosition t js as m = Inr (t', m')"
  shows "wellformed t'"
  using assms
  by (auto simp: jointToActuatorPosition_def wellformed_def Let_def and_then_def
      split: if_splits sum.splits)

section \<open>Properties of the conversions\<close>

text \<open>
  C1. For an object constructed from reductions \<open>ar\<close>, \<open>jr\<close> (the constructor has then checked
  that none is zero), \<open>jointToActuatorEffort\<close> on live joint slots \<open>j0\<close>, \<open>j1\<close> and live,
  distinct actuator slots \<open>a0\<close>, \<open>a1\<close> that are not the joint slots succeeds and leaves
  \<open>(je0 / jr[0] + je1 / jr[1]) / (2 * ar[0])\<close> in the first actuator slot and
  \<open>(je0 / jr[0] - je1 / jr[1]) / (2 * ar[1])\<close> in the second: the second component is divided
  by \<open>2 * ar[1]\<close>. No denominator is zero.
\<close>

theorem jointToActuatorEffort_closed_form:
  assumes "DifferentialTransmission ar jr jo = Inr t"
    and "j0 < length m" "j1 < length m" "a0 < length m" "a1 < length m"
    and "a0 \<noteq> a1" "a0 \<noteq> j0" "a0 \<noteq> j1"
  shows "\<exists>m'. jointToActuatorEffort t [Some j0, Some j1] [Some a0, Some a1] m = Inr m' \<and>
           m' ! a0 = (m ! j0 / jr ! 0 + m ! j1 / jr ! 1) / (2 * ar ! 0) \<and>
           m' ! a1 = (m ! j0 / jr ! 0 - m ! j1 / jr ! 1) / (2 * ar ! 1) \<and>
           jr ! 0 \<noteq> 0 \<and> jr ! 1 \<noteq> 0 \<and> ar ! 0 \<noteq> 0 \<and> ar ! 1 \<noteq> 0"
proof -
  from assms(1) have f: "actuator_reduction_' t = ar" "joint_reduction_' t = jr"
    by (simp_all add: constructed_fields)
  from assms(1) have "wellformed t" by (rule constructed_wellformed)
  with f have nz: "jr ! 0 \<noteq> 0" "jr ! 1 \<noteq> 0" "ar ! 0 \<noteq> 0" "ar ! 1 \<noteq> 0"
    by (simp_all add: wellformed_def)
  from assms(2-) nz show ?thesis
    by (simp add: jointToActuatorEffort_run f)
qed

theorem jointToActuatorEffort_closed_form_witness:
  "DifferentialTransmission [1, 2] [1, 1] [0, 0] =
     Inr \<lparr> actuator_reduction_' = [1, 2], joint_reduction_' = [1, 1],
           joint_offset_' = [0, 0], joint_pos_vec_' = [None, None] \<rparr> \<and>
   (\<exists>m'. jointToActuatorEffort
           \<lparr> actuator_reduction_' = [1, 2], joint_reduction_' = [1, 1],
             joint_offset_' = [0, 0], joint_pos_vec_' = [None, None] \<rparr>
           [Some 0, Some 1] [Some 2, Some 3] [2, 0, 0, 0] = Inr m' \<and>
         m' ! 2 = 1 \<and> m' ! 3 = 1 / 2)"
proof -
  have c: "DifferentialTransmission [1, 2] [1, 1] [0, 0] =
     Inr \<lparr> actuator_reduction_' = [1, 2], joint_reduction_' = [1, 1],
           joint_offset_' = [0, 0], joint_pos_vec_' = [None, None] \<rparr>"
    by (simp add: DifferentialTransmission_def numeral_2_eq_2)
  show ?thesis
    using c jointToActuatorEffort_closed_form [OF c, of 0 "[2, 0, 0, 0]" 1 2 3]
    by simp
qed

text \<open>
  C2, as stated, fails. For the object built from \<open>actuator_reduction = [1, 2]\<close>,
  \<open>joint_reduction = [1, 1]\<close> and joint efforts \<open>2\<close> and \<open>0\<close>, the second actuator effort
  written by \<open>jointToActuatorEffort\<close> is \<open>1 / 2\<close>, while the quotient by
  \<open>2 * actuator_reduction[0]\<close> would be \<open>1\<close>.
\<close>

theorem jointToActuatorEffort_second_not_ar0:
  "DifferentialTransmission [1, 2] [1, 1] [0, 0] =
     Inr \<lparr> actuator_reduction_' = [1, 2], joint_reduction_' = [1, 1],
           joint_offset_' = [0, 0], joint_pos_vec_' = [None, None] \<rparr> \<and>
   jointToActuatorEffort
     \<lparr> actuator_reduction_' = [1, 2], joint_reduction_' = [1, 1],
       joint_offset_' = [0, 0], joint_pos_vec_' = [None, None] \<rparr>
     [Some 0, Some 1] [Some 2, Some 3] [2, 0, 0, 0] = Inr [2, 0, 1, 1 / 2] \<and>
   [2, 0, 1, 1 / 2] ! 3 \<noteq>
     ([2, 0, 0, 0] ! 0 / [1, 1] ! 0 - [2, 0, 0, 0] ! 1 / [1, 1] ! 1) / (2 * [1, 2 :: real] ! 0)"
  by (simp add: DifferentialTransmission_def jointToActuatorEffort_def numeral_2_eq_2
      numeral_3_eq_3)

text \<open>
  C2, amended. For every well-formed object and every pair of joint efforts,
  \<open>jointToActuatorEffort\<close> divides by \<open>2 * actuator_reduction[0]\<close> in the first output
  component and by \<open>2 * actuator_reduction[1]\<close> in the second.
\<close>

theorem jointToActuatorEffort_denominators:
  assumes "wellformed t"
    and "j0 < length m" "j1 < length m" "a0 < length m" "a1 < length m"
    and "a0 \<noteq> a1" "a0 \<noteq> j0" "a0 \<noteq> j1"
  shows "\<exists>m'. jointToActuatorEffort t [Some j0, Some j1] [Some a0, Some a1] m = Inr m' \<and>
           m' ! a0 = (m ! j0 / joint_reduction_' t ! 0 + m ! j1 / joint_reduction_' t ! 1)
                     / (2 * actuator_reduction_' t ! 0) \<and>
           m' ! a1 = (m ! j0 / joint_reduction_' t ! 0 - m ! j1 / joint_reduction_' t ! 1)
                     / (2 * actuator_reduction_' t ! 1)"
  using assms(2-) by (simp add: jointToActuatorEffort_run)

text \<open>
  At \<open>actuator_reduction = [2, 4]\<close>, \<open>joint_reduction = [1, 2]\<close> and joint efforts \<open>8\<close> and
  \<open>4\<close> the second numerator is \<open>6\<close>: the second actuator effort is \<open>6 / (2 * 4) = 3 / 4\<close>,
  and not \<open>6 / (2 * 2) = 3 / 2\<close>.
\<close>

theorem jointToActuatorEffort_denominators_witness:
  "wellformed
     \<lparr> actuator_reduction_' = [2, 4], joint_reduction_' = [1, 2],
       joint_offset_' = [0, 0], joint_pos_vec_' = [None, None] \<rparr> \<and>
   (\<exists>m'. jointToActuatorEffort
           \<lparr> actuator_reduction_' = [2, 4], joint_reduction_' = [1, 2],
             joint_offset_' = [0, 0], joint_pos_vec_' = [None, None] \<rparr>
           [Some 0, Some 1] [Some 2, Some 3] [8, 4, 0, 0] = Inr m' \<and>
         m' ! 2 = 5 / 2 \<and> m' ! 3 = 3 / 4 \<and> m' ! 3 \<noteq> 3 / 2)"
  using jointToActuatorEffort_denominators
    [where t = "\<lparr> actuator_reduction_' = [2, 4], joint_reduction_' = [1, 2],
        joint_offset_' = [0, 0], joint_pos_vec_' = [None, None] \<rparr>"
      and m = "[8, 4, 0, 0]" and ?j0.0 = 0 and ?j1.0 = 1 and ?a0.0 = 2 and ?a1.0 = 3]
  by (auto simp: wellformed_def)

text \<open>
  C3. For a well-formed object (all four reductions nonzero, any offsets) and any pair of
  actuator efforts, \<open>actuatorToJointEffort\<close> into two joint slots followed by
  \<open>jointToActuatorEffort\<close> from these joint slots into two output slots leaves the original
  pair in the output slots. The joint slots are distinct and are neither input nor output
  slots; the output slots are distinct and may be the input slots or others.
\<close>

theorem effort_round_trip:
  assumes "wellformed t"
    and "a0 < length m" "a1 < length m" "j0 < length m" "j1 < length m"
    and "b0 < length m" "b1 < length m"
    and "j0 \<noteq> j1" "j0 \<noteq> a0" "j0 \<noteq> a1" "j1 \<noteq> a0" "j1 \<noteq> a1"
    and "b0 \<noteq> b1" "b0 \<noteq> j0" "b0 \<noteq> j1" "b1 \<noteq> j0" "b1 \<noteq> j1"
  shows "\<exists>m1 m2.
           actuatorToJointEffort t [Some a0, Some a1] [Some j0, Some j1] m = Inr m1 \<and>
           jointToActuatorEffort t [Some j0, Some j1] [Some b0, Some b1] m1 = Inr m2 \<and>
           m2 ! b0 = m ! a0 \<and> m2 ! b1 = m ! a1"
proof -
  from assms(1) have nz:
    "actuator_reduction_' t ! 0 \<noteq> 0" "actuator_reduction_' t ! 1 \<noteq> 0"
    "joint_reduction_' t ! 0 \<noteq> 0" "joint_reduction_' t ! 1 \<noteq> 0"
    by (simp_all add: wellformed_def)
  show ?thesis
    using assms(2-) nz
    by (simp add: actuatorToJointEffort_run jointToActuatorEffort_run field_simps)
qed

theorem effort_round_trip_witness:
  "wellformed
     \<lparr> actuator_reduction_' = [2, 4], joint_reduction_' = [3, 5],
          joint_offset_' = [1, - 1], joint_pos_vec_' = [None, None] \<rparr> \<and>
   (\<exists>m1 m2.
      actuatorToJointEffort
        \<lparr> actuator_reduction_' = [2, 4], joint_reduction_' = [3, 5],
          joint_offset_' = [1, - 1], joint_pos_vec_' = [None, None] \<rparr>
        [Some 0, Some 1] [Some 2, Some 3] [7, 11, 0, 0, 0, 0] = Inr m1 \<and>
      jointToActuatorEffort
        \<lparr> actuator_reduction_' = [2, 4], joint_reduction_' = [3, 5],
          joint_offset_' = [1, - 1], joint_pos_vec_' = [None, None] \<rparr>
        [Some 2, Some 3] [Some 4, Some 5] m1 = Inr m2 \<and>
      m2 ! 4 = 7 \<and> m2 ! 5 = 11)"
  using effort_round_trip [where t = "\<lparr> actuator_reduction_' = [2, 4], joint_reduction_' = [3, 5],
          joint_offset_' = [1, - 1], joint_pos_vec_' = [None, None] \<rparr>"
      and m = "[7, 11, 0, 0, 0, 0]" and ?a0.0 = 0 and ?a1.0 = 1 and ?j0.0 = 2 and ?j1.0 = 3
      and ?b0.0 = 4 and ?b1.0 = 5]
  by (simp add: wellformed_def)

text \<open>
  C4. The same round trip for velocities: \<open>actuatorToJointVelocity\<close> followed by
  \<open>jointToActuatorVelocity\<close> returns the original pair of actuator velocities.
\<close>

theorem velocity_round_trip:
  assumes "wellformed t"
    and "a0 < length m" "a1 < length m" "j0 < length m" "j1 < length m"
    and "b0 < length m" "b1 < length m"
    and "j0 \<noteq> j1" "j0 \<noteq> a0" "j0 \<noteq> a1" "j1 \<noteq> a0" "j1 \<noteq> a1"
    and "b0 \<noteq> b1" "b0 \<noteq> j0" "b0 \<noteq> j1" "b1 \<noteq> j0" "b1 \<noteq> j1"
  shows "\<exists>m1 m2.
           actuatorToJointVelocity t [Some a0, Some a1] [Some j0, Some j1] m = Inr m1 \<and>
           jointToActuatorVelocity t [Some j0, Some j1] [Some b0, Some b1] m1 = Inr m2 \<and>
           m2 ! b0 = m ! a0 \<and> m2 ! b1 = m ! a1"
proof -
  from assms(1) have nz:
    "actuator_reduction_' t ! 0 \<noteq> 0" "actuator_reduction_' t ! 1 \<noteq> 0"
    "joint_reduction_' t ! 0 \<noteq> 0" "joint_reduction_' t ! 1 \<noteq> 0"
    by (simp_all add: wellformed_def)
  show ?thesis
    using assms(2-) nz
    by (simp add: actuatorToJointVelocity_run jointToActuatorVelocity_run field_simps)
qed

theorem velocity_round_trip_witness:
  "wellformed
     \<lparr> actuator_reduction_' = [2, 4], joint_reduction_' = [3, 5],
          joint_offset_' = [1, - 1], joint_pos_vec_' = [None, None] \<rparr> \<and>
   (\<exists>m1 m2.
      actuatorToJointVelocity
        \<lparr> actuator_reduction_' = [2, 4], joint_reduction_' = [3, 5],
          joint_offset_' = [1, - 1], joint_pos_vec_' = [None, None] \<rparr>
        [Some 0, Some 1] [Some 2, Some 3] [7, 11, 0, 0, 0, 0] = Inr m1 \<and>
      jointToActuatorVelocity
        \<lparr> actuator_reduction_' = [2, 4], joint_reduction_' = [3, 5],
          joint_offset_' = [1, - 1], joint_pos_vec_' = [None, None] \<rparr>
        [Some 2, Some 3] [Some 4, Some 5] m1 = Inr m2 \<and>
      m2 ! 4 = 7 \<and> m2 ! 5 = 11)"
  using velocity_round_trip [where t = "\<lparr> actuator_reduction_' = [2, 4], joint_reduction_' = [3, 5],
          joint_offset_' = [1, - 1], joint_pos_vec_' = [None, None] \<rparr>"
      and m = "[7, 11, 0, 0, 0, 0]" and ?a0.0 = 0 and ?a1.0 = 1 and ?j0.0 = 2 and ?j1.0 = 3
      and ?b0.0 = 4 and ?b1.0 = 5]
  by (simp add: wellformed_def)

text \<open>
  C5. The same round trip for positions, for any joint offsets: \<open>actuatorToJointPosition\<close>
  followed by \<open>jointToActuatorPosition\<close> returns the original pair of actuator positions;
  the offset added by the first is removed by the second.
\<close>

theorem position_round_trip:
  assumes "wellformed t"
    and "a0 < length m" "a1 < length m" "j0 < length m" "j1 < length m"
    and "b0 < length m" "b1 < length m"
    and "j0 \<noteq> j1" "j0 \<noteq> a0" "j0 \<noteq> a1" "j1 \<noteq> a0" "j1 \<noteq> a1"
    and "b0 \<noteq> b1" "b0 \<noteq> j0" "b0 \<noteq> j1" "b1 \<noteq> j0" "b1 \<noteq> j1"
  shows "\<exists>m1 t' m2.
           actuatorToJointPosition t [Some a0, Some a1] [Some j0, Some j1] m = Inr m1 \<and>
           jointToActuatorPosition t [Some j0, Some j1] [Some b0, Some b1] m1 = Inr (t', m2) \<and>
           m2 ! b0 = m ! a0 \<and> m2 ! b1 = m ! a1"
proof -
  from assms(1) have nz:
    "actuator_reduction_' t ! 0 \<noteq> 0" "actuator_reduction_' t ! 1 \<noteq> 0"
    "joint_reduction_' t ! 0 \<noteq> 0" "joint_reduction_' t ! 1 \<noteq> 0"
    and ws: "length (joint_pos_vec_' t) = 2"
    by (simp_all add: wellformed_def)
  show ?thesis
    using assms(2-) nz
    by (simp add: actuatorToJointPosition_run jointToActuatorPosition_run [OF ws] field_simps)
qed

theorem position_round_trip_witness:
  "wellformed
     \<lparr> actuator_reduction_' = [2, 4], joint_reduction_' = [3, 5],
          joint_offset_' = [1, - 1], joint_pos_vec_' = [None, None] \<rparr> \<and>
   (\<exists>m1 t' m2.
      actuatorToJointPosition
        \<lparr> actuator_reduction_' = [2, 4], joint_reduction_' = [3, 5],
          joint_offset_' = [1, - 1], joint_pos_vec_' = [None, None] \<rparr>
        [Some 0, Some 1] [Some 2, Some 3] [7, 11, 0, 0, 0, 0] = Inr m1 \<and>
      jointToActuatorPosition
        \<lparr> actuator_reduction_' = [2, 4], joint_reduction_' = [3, 5],
          joint_offset_' = [1, - 1], joint_pos_vec_' = [None, None] \<rparr>
        [Some 2, Some 3] [Some 4, Some 5] m1 = Inr (t', m2) \<and>
      m2 ! 4 = 7 \<and> m2 ! 5 = 11)"
  using position_round_trip [where t = "\<lparr> actuator_reduction_' = [2, 4], joint_reduction_' = [3, 5],
          joint_offset_' = [1, - 1], joint_pos_vec_' = [None, None] \<rparr>"
      and m = "[7, 11, 0, 0, 0, 0]" and ?a0.0 = 0 and ?a1.0 = 1 and ?j0.0 = 2 and ?j1.0 = 3
      and ?b0.0 = 4 and ?b1.0 = 5]
  by (simp add: wellformed_def)

text \<open>
  C6. The position maps are the velocity maps with the offset added after or subtracted
  before. For a well-formed object and separate live slots:
  \<^item> \<open>actuatorToJointPosition\<close> leaves the memory that \<open>actuatorToJointVelocity\<close> leaves on
    the same input, with \<open>joint_offset[i]\<close> added to joint slot \<open>i\<close>;
  \<^item> \<open>jointToActuatorPosition\<close> leaves in the actuator slots what
    \<open>jointToActuatorVelocity\<close> leaves there when it is run on the memory in which
    \<open>joint_offset[i]\<close> has been subtracted from joint slot \<open>i\<close>.
\<close>

theorem position_from_velocity:
  assumes "wellformed t"
    and "a0 < length m" "a1 < length m" "j0 < length m" "j1 < length m"
    and "j0 \<noteq> j1" "j0 \<noteq> a0" "j0 \<noteq> a1" "j1 \<noteq> a0" "j1 \<noteq> a1" "a0 \<noteq> a1"
  shows "(\<exists>mv mp.
            actuatorToJointVelocity t [Some a0, Some a1] [Some j0, Some j1] m = Inr mv \<and>
            actuatorToJointPosition t [Some a0, Some a1] [Some j0, Some j1] m = Inr mp \<and>
            mp = mv[j0 := mv ! j0 + joint_offset_' t ! 0, j1 := mv ! j1 + joint_offset_' t ! 1]) \<and>
         (\<exists>mv t' mp.
            jointToActuatorVelocity t [Some j0, Some j1] [Some a0, Some a1]
              (m[j0 := m ! j0 - joint_offset_' t ! 0, j1 := m ! j1 - joint_offset_' t ! 1]) = Inr mv \<and>
            jointToActuatorPosition t [Some j0, Some j1] [Some a0, Some a1] m = Inr (t', mp) \<and>
            mp ! a0 = mv ! a0 \<and> mp ! a1 = mv ! a1)"
proof (rule conjI)
  have swap: "xs[j0 := x, j1 := y, j0 := z] = xs[j0 := z, j1 := y]" for xs :: memory and x y z
    using \<open>j0 \<noteq> j1\<close> by (simp add: list_update_swap [of j0 j1])
  show "\<exists>mv mp.
            actuatorToJointVelocity t [Some a0, Some a1] [Some j0, Some j1] m = Inr mv \<and>
            actuatorToJointPosition t [Some a0, Some a1] [Some j0, Some j1] m = Inr mp \<and>
            mp = mv[j0 := mv ! j0 + joint_offset_' t ! 0, j1 := mv ! j1 + joint_offset_' t ! 1]"
    using assms(2-)
    by (simp add: actuatorToJointVelocity_run actuatorToJointPosition_run swap)
next
  from assms(1) have ws: "length (joint_pos_vec_' t) = 2"
    by (simp add: wellformed_def)
  show "\<exists>mv t' mp.
            jointToActuatorVelocity t [Some j0, Some j1] [Some a0, Some a1]
              (m[j0 := m ! j0 - joint_offset_' t ! 0, j1 := m ! j1 - joint_offset_' t ! 1]) = Inr mv \<and>
            jointToActuatorPosition t [Some j0, Some j1] [Some a0, Some a1] m = Inr (t', mp) \<and>
            mp ! a0 = mv ! a0 \<and> mp ! a1 = mv ! a1"
    using assms(2-)
    by (simp add: jointToActuatorVelocity_run jointToActuatorPosition_run [OF ws])
qed

theorem position_from_velocity_witness:
  "wellformed
     \<lparr> actuator_reduction_' = [2, 2], joint_reduction_' = [1, 1],
          joint_offset_' = [1, - 1], joint_pos_vec_' = [None, None] \<rparr> \<and>
   (\<exists>mv mp.
      actuatorToJointVelocity
        \<lparr> actuator_reduction_' = [2, 2], joint_reduction_' = [1, 1],
          joint_offset_' = [1, - 1], joint_pos_vec_' = [None, None] \<rparr>
        [Some 0, Some 1] [Some 2, Some 3] [2, 2, 5, 7] = Inr mv \<and>
      actuatorToJointPosition
        \<lparr> actuator_reduction_' = [2, 2], joint_reduction_' = [1, 1],
          joint_offset_' = [1, - 1], joint_pos_vec_' = [None, None] \<rparr>
        [Some 0, Some 1] [Some 2, Some 3] [2, 2, 5, 7] = Inr mp \<and>
      mp = mv[2 := mv ! 2 + 1, 3 := mv ! 3 + - 1]) \<and>
   (\<exists>mv t' mp.
      jointToActuatorVelocity
        \<lparr> actuator_reduction_' = [2, 2], joint_reduction_' = [1, 1],
          joint_offset_' = [1, - 1], joint_pos_vec_' = [None, None] \<rparr>
        [Some 2, Some 3] [Some 0, Some 1] ([2, 2, 5, 7][2 := 5 - 1, 3 := 7 - - 1]) = Inr mv \<and>
      jointToActuatorPosition
        \<lparr> actuator_reduction_' = [2, 2], joint_reduction_' = [1, 1],
          joint_offset_' = [1, - 1], joint_pos_vec_' = [None, None] \<rparr>
        [Some 2, Some 3] [Some 0, Some 1] [2, 2, 5, 7] = Inr (t', mp) \<and>
      mp ! 0 = mv ! 0 \<and> mp ! 1 = mv ! 1)"
  using position_from_velocity [where t = "\<lparr> actuator_reduction_' = [2, 2], joint_reduction_' = [1, 1],
          joint_offset_' = [1, - 1], joint_pos_vec_' = [None, None] \<rparr>"
      and m = "[2, 2, 5, 7]" and ?a0.0 = 0 and ?a1.0 = 1 and ?j0.0 = 2 and ?j1.0 = 3]
  by (simp add: wellformed_def)

text \<open>The elements of a vector of size 2.\<close>

lemma set_of_two: "length xs = 2 \<Longrightarrow> set xs = {xs ! 0, xs ! 1}"
  by (cases xs; simp; rename_tac y ys; case_tac ys; simp)

text \<open>
  C7. The constructor throws (a \<open>TransmissionException\<close>, the configuration error of the
  specification) if and only if one of the three vectors has a size other than 2 or some
  actuator or joint reduction is zero. It returns an object, and then throws nothing, if and
  only if all three sizes are 2 and no reduction is zero: the values of the joint offsets
  play no part.
\<close>

theorem constructor_fails_iff:
  "((\<exists>msg. DifferentialTransmission ar jr jo = Inl (TransmissionException msg)) \<longleftrightarrow>
      (length ar \<noteq> 2 \<or> length jr \<noteq> 2 \<or> length jo \<noteq> 2 \<or> 0 \<in> set ar \<or> 0 \<in> set jr)) \<and>
   ((\<exists>t. DifferentialTransmission ar jr jo = Inr t) \<longleftrightarrow>
      (length ar = 2 \<and> length jr = 2 \<and> length jo = 2 \<and> 0 \<notin> set ar \<and> 0 \<notin> set jr))"
  by (auto simp: DifferentialTransmission_def Let_def set_of_two)

theorem constructor_fails_iff_witness:
  "(\<exists>msg. DifferentialTransmission [1, 1, 1] [1, 1] [0, 0] = Inl (TransmissionException msg)) \<and>
   (\<exists>msg. DifferentialTransmission [1, 0] [1, 1] [0, 0] = Inl (TransmissionException msg)) \<and>
   (\<exists>t. DifferentialTransmission [1, 1] [1, 1] [0, 0] = Inr t)"
  using constructor_fails_iff [of "[1, 1, 1]" "[1, 1]" "[0, 0]"]
    constructor_fails_iff [of "[1, 0]" "[1, 1]" "[0, 0]"]
    constructor_fails_iff [of "[1, 1]" "[1, 1]" "[0, 0]"]
  by simp

text \<open>
  C8. For a well-formed object and live slots such that no joint-position slot is an
  actuator-position slot, \<open>jointToActuatorPosition\<close> succeeds and leaves both joint-position
  cells as they were. The memory has its size of before the call (the local array is gone),
  and every cell other than the two actuator-position slots is unchanged.
\<close>

theorem jointToActuatorPosition_keeps_inputs:
  assumes "wellformed t"
    and "a0 < length m" "a1 < length m" "j0 < length m" "j1 < length m"
    and "j0 \<noteq> a0" "j0 \<noteq> a1" "j1 \<noteq> a0" "j1 \<noteq> a1"
  shows "\<exists>t' m'.
           jointToActuatorPosition t [Some j0, Some j1] [Some a0, Some a1] m = Inr (t', m') \<and>
           m' ! j0 = m ! j0 \<and> m' ! j1 = m ! j1 \<and>
           length m' = length m \<and>
           (\<forall>k. k \<noteq> a0 \<and> k \<noteq> a1 \<longrightarrow> m' ! k = m ! k)"
proof -
  from assms(1) have ws: "length (joint_pos_vec_' t) = 2"
    by (simp add: wellformed_def)
  show ?thesis
    using assms(2-) by (simp add: jointToActuatorPosition_run [OF ws])
qed

theorem jointToActuatorPosition_keeps_inputs_witness:
  "wellformed
     \<lparr> actuator_reduction_' = [2, 2], joint_reduction_' = [1, 1],
       joint_offset_' = [1, - 1], joint_pos_vec_' = [None, None] \<rparr> \<and>
   (\<exists>t' m'.
      jointToActuatorPosition
        \<lparr> actuator_reduction_' = [2, 2], joint_reduction_' = [1, 1],
          joint_offset_' = [1, - 1], joint_pos_vec_' = [None, None] \<rparr>
        [Some 0, Some 1] [Some 2, Some 3] [2, - 1, 0, 0] = Inr (t', m') \<and>
      m' ! 0 = 2 \<and> m' ! 1 = - 1 \<and> length m' = 4)"
  using jointToActuatorPosition_keeps_inputs
    [where t = "\<lparr> actuator_reduction_' = [2, 2], joint_reduction_' = [1, 1],
        joint_offset_' = [1, - 1], joint_pos_vec_' = [None, None] \<rparr>"
      and m = "[2, - 1, 0, 0]" and ?j0.0 = 0 and ?j1.0 = 1 and ?a0.0 = 2 and ?a1.0 = 3]
  by (auto simp: wellformed_def)

text \<open>
  When the actuator slots are the joint slots, the call overwrites its inputs: the hypothesis
  of the preceding theorem is needed.
\<close>

lemma jointToActuatorPosition_aliased_example:
  "jointToActuatorPosition
     \<lparr> actuator_reduction_' = [2, 2], joint_reduction_' = [1, 1],
       joint_offset_' = [1, - 1], joint_pos_vec_' = [None, None] \<rparr>
     [Some 0, Some 1] [Some 0, Some 1] [2, - 1] =
   Inr (\<lparr> actuator_reduction_' = [2, 2], joint_reduction_' = [1, 1],
          joint_offset_' = [1, - 1], joint_pos_vec_' = [Some 2, Some 3] \<rparr>, [2, 2])"
  by (simp add: jointToActuatorPosition_def jointToActuatorVelocity_def Let_def
      numeral_2_eq_2 numeral_3_eq_3)

text \<open>
  C9. For the object constructed from \<open>actuator_reduction = [2, 2]\<close>,
  \<open>joint_reduction = [1, 1]\<close>, \<open>joint_offset = [0, 0]\<close>: on actuator velocities \<open>[2, 2]\<close>,
  \<open>actuatorToJointVelocity\<close> yields joint velocities \<open>[1, 0]\<close>, and on joint velocities
  \<open>[1, 0]\<close>, \<open>jointToActuatorVelocity\<close> yields actuator velocities \<open>[2, 2]\<close>, whatever
  separate live slots hold the values.
\<close>

theorem velocity_scenario:
  assumes "DifferentialTransmission [2, 2] [1, 1] [0, 0] = Inr t"
    and "a0 < length m" "a1 < length m" "j0 < length m" "j1 < length m"
    and "a0 < length n" "a1 < length n" "j0 < length n" "j1 < length n"
    and "j0 \<noteq> j1" "j0 \<noteq> a0" "j0 \<noteq> a1" "j1 \<noteq> a0" "j1 \<noteq> a1" "a0 \<noteq> a1"
    and "m ! a0 = 2" "m ! a1 = 2"
    and "n ! j0 = 1" "n ! j1 = 0"
  shows "\<exists>m' n'.
           actuatorToJointVelocity t [Some a0, Some a1] [Some j0, Some j1] m = Inr m' \<and>
           m' ! j0 = 1 \<and> m' ! j1 = 0 \<and>
           jointToActuatorVelocity t [Some j0, Some j1] [Some a0, Some a1] n = Inr n' \<and>
           n' ! a0 = 2 \<and> n' ! a1 = 2"
proof -
  from assms(1) have f: "actuator_reduction_' t = [2, 2]" "joint_reduction_' t = [1, 1]"
    by (simp_all add: constructed_fields)
  show ?thesis
    using assms(2-)
    by (simp add: actuatorToJointVelocity_run jointToActuatorVelocity_run f)
qed

theorem velocity_scenario_witness:
  "DifferentialTransmission [2, 2] [1, 1] [0, 0] =
     Inr \<lparr> actuator_reduction_' = [2, 2], joint_reduction_' = [1, 1],
           joint_offset_' = [0, 0], joint_pos_vec_' = [None, None] \<rparr> \<and>
   (\<exists>m' n'.
      actuatorToJointVelocity
        \<lparr> actuator_reduction_' = [2, 2], joint_reduction_' = [1, 1],
          joint_offset_' = [0, 0], joint_pos_vec_' = [None, None] \<rparr>
        [Some 0, Some 1] [Some 2, Some 3] [2, 2, 9, 9] = Inr m' \<and>
      m' ! 2 = 1 \<and> m' ! 3 = 0 \<and>
      jointToActuatorVelocity
        \<lparr> actuator_reduction_' = [2, 2], joint_reduction_' = [1, 1],
          joint_offset_' = [0, 0], joint_pos_vec_' = [None, None] \<rparr>
        [Some 2, Some 3] [Some 0, Some 1] [9, 9, 1, 0] = Inr n' \<and>
      n' ! 0 = 2 \<and> n' ! 1 = 2)"
proof -
  have c: "DifferentialTransmission [2, 2] [1, 1] [0, 0] =
     Inr \<lparr> actuator_reduction_' = [2, 2], joint_reduction_' = [1, 1],
           joint_offset_' = [0, 0], joint_pos_vec_' = [None, None] \<rparr>"
    by (simp add: DifferentialTransmission_def numeral_2_eq_2)
  show ?thesis
    using c velocity_scenario [OF c, where m = "[2, 2, 9, 9]" and n = "[9, 9, 1, 0]"
        and ?a0.0 = 0 and ?a1.0 = 1 and ?j0.0 = 2 and ?j1.0 = 3]
    by simp
qed

text \<open>
  C10. Two objects with the same actuator reductions and the same joint reductions give the
  same result in \<open>actuatorToJointEffort\<close>, \<open>jointToActuatorEffort\<close>,
  \<open>actuatorToJointVelocity\<close> and \<open>jointToActuatorVelocity\<close> on every input (any pointer
  vectors, any memory), whatever their joint offsets and workspace vectors.
\<close>

theorem effort_velocity_ignore_offset:
  assumes "actuator_reduction_' t = actuator_reduction_' t'"
    and "joint_reduction_' t = joint_reduction_' t'"
  shows "actuatorToJointEffort t ins outs m = actuatorToJointEffort t' ins outs m \<and>
         jointToActuatorEffort t ins outs m = jointToActuatorEffort t' ins outs m \<and>
         actuatorToJointVelocity t ins outs m = actuatorToJointVelocity t' ins outs m \<and>
         jointToActuatorVelocity t ins outs m = jointToActuatorVelocity t' ins outs m"
  using assms
  by (simp add: actuatorToJointEffort_def jointToActuatorEffort_def
      actuatorToJointVelocity_def jointToActuatorVelocity_def)

theorem effort_velocity_ignore_offset_witness:
  "DifferentialTransmission [2, 4] [3, 5] [0, 0] =
     Inr \<lparr> actuator_reduction_' = [2, 4], joint_reduction_' = [3, 5],
           joint_offset_' = [0, 0], joint_pos_vec_' = [None, None] \<rparr> \<and>
   DifferentialTransmission [2, 4] [3, 5] [1, - 1] =
     Inr \<lparr> actuator_reduction_' = [2, 4], joint_reduction_' = [3, 5],
           joint_offset_' = [1, - 1], joint_pos_vec_' = [None, None] \<rparr> \<and>
   actuatorToJointEffort
     \<lparr> actuator_reduction_' = [2, 4], joint_reduction_' = [3, 5],
       joint_offset_' = [0, 0], joint_pos_vec_' = [None, None] \<rparr>
     [Some 0, Some 1] [Some 2, Some 3] [7, 11, 0, 0] =
   actuatorToJointEffort
     \<lparr> actuator_reduction_' = [2, 4], joint_reduction_' = [3, 5],
       joint_offset_' = [1, - 1], joint_pos_vec_' = [None, None] \<rparr>
     [Some 0, Some 1] [Some 2, Some 3] [7, 11, 0, 0] \<and>
   jointToActuatorVelocity
     \<lparr> actuator_reduction_' = [2, 4], joint_reduction_' = [3, 5],
       joint_offset_' = [0, 0], joint_pos_vec_' = [None, None] \<rparr>
     [Some 0, Some 1] [Some 2, Some 3] [7, 11, 0, 0] =
   jointToActuatorVelocity
     \<lparr> actuator_reduction_' = [2, 4], joint_reduction_' = [3, 5],
       joint_offset_' = [1, - 1], joint_pos_vec_' = [None, None] \<rparr>
     [Some 0, Some 1] [Some 2, Some 3] [7, 11, 0, 0]"
  using effort_velocity_ignore_offset
    [where t = "\<lparr> actuator_reduction_' = [2, 4], joint_reduction_' = [3, 5],
        joint_offset_' = [0, 0], joint_pos_vec_' = [None, None] \<rparr>"
      and t' = "\<lparr> actuator_reduction_' = [2, 4], joint_reduction_' = [3, 5],
        joint_offset_' = [1, - 1], joint_pos_vec_' = [None, None] \<rparr>"
      and ins = "[Some 0, Some 1]" and outs = "[Some 2, Some 3]" and m = "[7, 11, 0, 0]"]
  by (simp add: DifferentialTransmission_def numeral_2_eq_2)

text \<open>The position conversions do read the offsets.\<close>

lemma position_reads_joint_offset:
  "actuatorToJointPosition
     \<lparr> actuator_reduction_' = [2, 2], joint_reduction_' = [1, 1],
       joint_offset_' = [0, 0], joint_pos_vec_' = [None, None] \<rparr>
     [Some 0, Some 1] [Some 2, Some 3] [2, 2, 0, 0] = Inr [2, 2, 1, 0] \<and>
   actuatorToJointPosition
     \<lparr> actuator_reduction_' = [2, 2], joint_reduction_' = [1, 1],
       joint_offset_' = [1, - 1], joint_pos_vec_' = [None, None] \<rparr>
     [Some 0, Some 1] [Some 2, Some 3] [2, 2, 0, 0] = Inr [2, 2, 2, - 1]"
  by (simp add: actuatorToJointPosition_def actuatorToJointVelocity_def
      numeral_2_eq_2 numeral_3_eq_3)

end
